theory Spec2Isabelle
  imports Main "HOL-Library.Char_ord" "HOL-Library.List_Lexorder" "HOL-Library.AList"
begin

section \<open>Text as the script sees it\<close>

text \<open>
  The catalog generator \<^verbatim>\<open>scripts/generate-catalog.py\<close> works on Python \<^verbatim>\<open>str\<close> values.
  A text is modelled as a \<^typ>\<open>string\<close>, the sequence of its UTF-8 code units. The
  character classes below are the ASCII members of Python's classes, so every function is
  exact on ASCII text; a character outside ASCII is a run of code units from \<open>0x80\<close> on,
  which belong to no class here (not white space, not a word character, not cased).
\<close>

definition is_space :: "char \<Rightarrow> bool" where
  \<comment> \<open>\<^verbatim>\<open>str.isspace\<close>, which is also what \<^verbatim>\<open>\s\<close>, \<^verbatim>\<open>strip()\<close> and \<^verbatim>\<open>split()\<close> use:
      tab, line feed, vertical tab, form feed, carriage return, the four separators
      \<open>0x1C\<close> to \<open>0x1F\<close>, and the space.\<close>
  "is_space c = (c \<in> {CHR 0x09, CHR 0x0A, CHR 0x0B, CHR 0x0C, CHR 0x0D,
                       CHR 0x1C, CHR 0x1D, CHR 0x1E, CHR 0x1F, CHR '' ''})"

definition ascii_uppercase :: string where
  "ascii_uppercase = ''ABCDEFGHIJKLMNOPQRSTUVWXYZ''"

definition ascii_lowercase :: string where
  "ascii_lowercase = ''abcdefghijklmnopqrstuvwxyz''"

definition is_word :: "char \<Rightarrow> bool" where
  \<comment> \<open>\<^verbatim>\<open>\w\<close>: a letter, a digit or the underscore.\<close>
  "is_word c = (c \<in> set (ascii_lowercase @ ascii_uppercase @ ''0123456789_''))"

definition lower :: "char \<Rightarrow> char" where
  "lower c = (case map_of (zip ascii_uppercase ascii_lowercase) c of Some d \<Rightarrow> d | None \<Rightarrow> c)"

definition upper :: "char \<Rightarrow> char" where
  "upper c = (case map_of (zip ascii_lowercase ascii_uppercase) c of Some d \<Rightarrow> d | None \<Rightarrow> c)"

definition is_cased :: "char \<Rightarrow> bool" where
  "is_cased c = (c \<in> set (ascii_lowercase @ ascii_uppercase))"

definition strip :: "string \<Rightarrow> string" where
  \<comment> \<open>\<^verbatim>\<open>s.strip()\<close>\<close>
  "strip s = rev (dropWhile is_space (rev (dropWhile is_space s)))"

definition startswith :: "string \<Rightarrow> string \<Rightarrow> bool" where
  "startswith s p = (take (length p) s = p)"

definition endswith :: "string \<Rightarrow> string \<Rightarrow> bool" where
  "endswith s p = (length p \<le> length s \<and> drop (length s - length p) s = p)"

fun join :: "string \<Rightarrow> string list \<Rightarrow> string" where
  \<comment> \<open>\<^verbatim>\<open>sep.join(xs)\<close>\<close>
  "join sep [] = []"
| "join sep [x] = x"
| "join sep (x # y # ys) = x @ sep @ join sep (y # ys)"

fun split_on :: "char \<Rightarrow> string \<Rightarrow> string list" where
  \<comment> \<open>\<^verbatim>\<open>s.split(d)\<close> for a separator of one character: empty fields are kept.\<close>
  "split_on d [] = [[]]"
| "split_on d (c # cs) =
     (if c = d then [] # split_on d cs
      else (case split_on d cs of [] \<Rightarrow> [[c]] | w # ws \<Rightarrow> (c # w) # ws))"

function split_ws :: "string \<Rightarrow> string list" where
  \<comment> \<open>\<^verbatim>\<open>s.split()\<close>: the maximal runs of characters that are not white space.\<close>
  "split_ws s =
     (let s' = dropWhile is_space s
      in if s' = [] then []
         else takeWhile (\<lambda>c. \<not> is_space c) s' # split_ws (dropWhile (\<lambda>c. \<not> is_space c) s'))"
  by pat_completeness auto
termination
proof (relation "measure length")
  fix s s' :: string
  assume s': "s' = dropWhile is_space s" and ne: "s' \<noteq> []"
  from ne obtain c cs where cs: "s' = c # cs"
    by (cases s') simp_all
  from ne have "\<not> is_space (hd s')"
    unfolding s' by (rule hd_dropWhile)
  then have "\<not> is_space c"
    by (simp add: cs)
  then have "length (dropWhile (\<lambda>c. \<not> is_space c) s') \<le> length cs"
    by (simp add: cs length_dropWhile_le)
  moreover have "length s' \<le> length s"
    by (simp add: s' length_dropWhile_le)
  ultimately show "(dropWhile (\<lambda>c. \<not> is_space c) s', s) \<in> measure length"
    by (simp add: cs)
qed simp

declare split_ws.simps [simp del]

function replace :: "string \<Rightarrow> string \<Rightarrow> string \<Rightarrow> string" where
  \<comment> \<open>\<^verbatim>\<open>s.replace(old, new)\<close>: the occurrences of \<open>old\<close> from the left, not overlapping.
      With an empty \<open>old\<close> Python puts \<open>new\<close> before every character and at the end.\<close>
  "replace old new s =
     (if old = [] then new @ concat (map (\<lambda>c. c # new) s)
      else if s = [] then []
      else if take (length old) s = old then new @ replace old new (drop (length old) s)
      else hd s # replace old new (tl s))"
  by pat_completeness auto
termination
  by (relation "measure (\<lambda>(old, new, s). length s)") auto

declare replace.simps [simp del]

section \<open>Regular expressions as backtracking matchers\<close>

text \<open>
  A pattern of Python's \<^verbatim>\<open>re\<close> module is embedded as a matcher: from a position in the
  subject (the character before it, if any, and the text from it on) it returns the
  positions where a match can end, in the order in which the backtracking engine tries
  them. The first element of the list is the match \<^verbatim>\<open>re\<close> reports.
\<close>

type_synonym rstate = "char option \<times> string"
type_synonym matcher = "rstate \<Rightarrow> rstate list"

definition re_cls :: "(char \<Rightarrow> bool) \<Rightarrow> matcher" where
  \<comment> \<open>one character of a class\<close>
  "re_cls P st = (case snd st of [] \<Rightarrow> [] | c # cs \<Rightarrow> if P c then [(Some c, cs)] else [])"

definition re_lit :: "char \<Rightarrow> matcher" where
  "re_lit c = re_cls (\<lambda>x. x = c)"

definition re_lit_ci :: "char \<Rightarrow> matcher" where
  \<comment> \<open>a literal character under \<^verbatim>\<open>re.IGNORECASE\<close>\<close>
  "re_lit_ci c = re_cls (\<lambda>x. lower x = lower c)"

definition re_seq :: "matcher \<Rightarrow> matcher \<Rightarrow> matcher" where
  "re_seq a b st = concat (map b (a st))"

definition re_alt :: "matcher \<Rightarrow> matcher \<Rightarrow> matcher" where
  \<comment> \<open>\<^verbatim>\<open>a|b\<close>: the left branch is tried first\<close>
  "re_alt a b st = a st @ b st"

definition re_opt :: "matcher \<Rightarrow> matcher" where
  \<comment> \<open>\<^verbatim>\<open>a?\<close>, greedy\<close>
  "re_opt a st = a st @ [st]"

fun re_star :: "(char \<Rightarrow> bool) \<Rightarrow> matcher" where
  \<comment> \<open>\<^verbatim>\<open>[class]*\<close>, greedy: the longest run first, then one character less, down to none\<close>
  "re_star P (p, []) = [(p, [])]"
| "re_star P (p, c # cs) = (if P c then re_star P (Some c, cs) else []) @ [(p, c # cs)]"

fun re_star_lazy :: "(char \<Rightarrow> bool) \<Rightarrow> matcher" where
  \<comment> \<open>\<^verbatim>\<open>[class]*?\<close>, lazy: no character first, then one more at a time\<close>
  "re_star_lazy P (p, []) = [(p, [])]"
| "re_star_lazy P (p, c # cs) = (p, c # cs) # (if P c then re_star_lazy P (Some c, cs) else [])"

definition re_bol :: matcher where
  \<comment> \<open>\<^verbatim>\<open>^\<close> under \<^verbatim>\<open>re.MULTILINE\<close>: at the start of the text and after every line feed\<close>
  "re_bol st = (if fst st = None \<or> fst st = Some (CHR 0x0A) then [st] else [])"

definition re_wordb :: matcher where
  \<comment> \<open>\<^verbatim>\<open>\b\<close>: exactly one of the two neighbours is a word character\<close>
  "re_wordb st =
     (if (case fst st of None \<Rightarrow> False | Some c \<Rightarrow> is_word c)
         \<noteq> (case snd st of [] \<Rightarrow> False | c # cs \<Rightarrow> is_word c)
      then [st] else [])"

fun re_str :: "string \<Rightarrow> matcher" where
  "re_str [] st = [st]"
| "re_str (c # cs) st = re_seq (re_lit c) (re_str cs) st"

fun re_str_ci :: "string \<Rightarrow> matcher" where
  "re_str_ci [] st = [st]"
| "re_str_ci (c # cs) st = re_seq (re_lit_ci c) (re_str_ci cs) st"

fun re_alts :: "matcher list \<Rightarrow> matcher" where
  "re_alts [] st = []"
| "re_alts (a # as) st = re_alt a (re_alts as) st"

fun re_search_from :: "matcher \<Rightarrow> nat \<Rightarrow> rstate \<Rightarrow> nat option" where
  \<comment> \<open>\<^verbatim>\<open>pattern.search\<close>: the first start position, from the left, at which the pattern
      matches; the end of the text is a start position too.\<close>
  "re_search_from r i (p, []) = (if r (p, []) \<noteq> [] then Some i else None)"
| "re_search_from r i (p, c # cs) =
     (if r (p, c # cs) \<noteq> [] then Some i else re_search_from r (Suc i) (Some c, cs))"

definition re_search_start :: "matcher \<Rightarrow> string \<Rightarrow> nat option" where
  \<comment> \<open>\<^verbatim>\<open>m.start()\<close> of \<^verbatim>\<open>pattern.search(s)\<close>, or \<open>None\<close>\<close>
  "re_search_start r s = re_search_from r 0 (None, s)"

section \<open>The description normalizer\<close>

definition STOP_alternatives :: matcher where
  "STOP_alternatives = re_alts
     [re_seq (re_str_ci ''Use when'') re_wordb,
      re_seq (re_str_ci ''Use before'') re_wordb,
      re_seq (re_str_ci ''Use this'') re_wordb,
      re_seq (re_str_ci ''Use proactively'') re_wordb,
      re_seq (re_str_ci ''Recognize'') (re_seq (re_opt (re_lit_ci (CHR ''s''))) (re_lit_ci (CHR '':''))),
      re_seq (re_str_ci ''Trigger'') (re_seq (re_opt (re_lit_ci (CHR ''s''))) (re_lit_ci (CHR '':''))),
      re_str_ci ''Usage:'',
      re_str_ci ''Optional:'',
      re_str_ci ''Cancel:'',
      re_str_ci ''Activate when:'']"

definition STOP_PATTERNS :: matcher where
  \<comment> \<open>\<^verbatim>\<open>^\s*(Use when\b|...|Activate when:)\<close> with \<^verbatim>\<open>re.IGNORECASE | re.MULTILINE\<close>\<close>
  "STOP_PATTERNS = re_seq re_bol (re_seq (re_star is_space) STOP_alternatives)"

definition extract_catalog_description :: "string \<Rightarrow> string" where
  "extract_catalog_description raw_description =
     (let raw = (case re_search_start STOP_PATTERNS raw_description of
                   Some i \<Rightarrow> take i raw_description
                 | None \<Rightarrow> raw_description);
          desc = strip (join '' '' (split_ws raw))
      in if desc \<noteq> [] \<and> \<not> endswith desc ''.'' then desc @ ''.'' else desc)"

section \<open>The metadata block parser\<close>

type_synonym dict = "(string \<times> string) list"

text \<open>
  A Python \<^verbatim>\<open>dict\<close> from strings to strings is an association list with distinct keys in
  insertion order; \<^const>\<open>AList.update\<close> is the item assignment \<^verbatim>\<open>d[k] = v\<close>.
\<close>

definition key_char :: "char \<Rightarrow> bool" where
  \<comment> \<open>the class \<^verbatim>\<open>[\w-]\<close>\<close>
  "key_char c = (is_word c \<or> c = CHR ''-'')"

definition YAML_KEY_RE_match :: "string \<Rightarrow> (string \<times> string) option" where
  \<comment> \<open>\<^verbatim>\<open>YAML_KEY_RE.match(line)\<close> for \<^verbatim>\<open>^(\w[\w-]*)\s*:\s*(.*)\<close>: the groups 1 and 2 of the
      first match the engine finds, or \<open>None\<close>. The dot does not match a line feed.\<close>
  "YAML_KEY_RE_match line =
     (case [(k, v, e).
              k \<leftarrow> re_seq (re_cls is_word) (re_star key_char) (None, line),
              v \<leftarrow> re_seq (re_star is_space) (re_seq (re_lit (CHR '':'')) (re_star is_space)) k,
              e \<leftarrow> re_star (\<lambda>c. c \<noteq> CHR 0x0A) v] of
        [] \<Rightarrow> None
      | (k, v, e) # rest \<Rightarrow>
          Some (take (length line - length (snd k)) line,
                take (length (snd v) - length (snd e)) (snd v)))"

definition flush :: "string list \<Rightarrow> string" where
  "flush lines = strip (join [CHR 0x0A] lines)"

definition unescape :: "string \<Rightarrow> string" where
  \<comment> \<open>the four \<^verbatim>\<open>replace\<close> calls on a quoted value; \<open>0x5C\<close> is the backslash and
      \<open>0x22\<close> the double quote\<close>
  "unescape v =
     replace [CHR 0x5C, CHR 0x22] [CHR 0x22]
       (replace [CHR 0x5C, CHR 0x5C, CHR 0x22] [CHR 0x22]
         (replace [CHR 0x5C, CHR ''n''] [CHR 0x0A]
           (replace [CHR 0x5C, CHR 0x5C, CHR ''n''] [CHR 0x0A] v)))"

definition unquote :: "string \<Rightarrow> string" where
  \<comment> \<open>\<^verbatim>\<open>if len(value) >= 2 and value[0] in "\"'" and value[-1] == value[0]\<close>:
      strip the quotes (\<open>0x27\<close> is the single quote) and unescape\<close>
  "unquote v =
     (if 2 \<le> length v \<and> hd v \<in> {CHR 0x22, CHR 0x27} \<and> last v = hd v
      then unescape (butlast (tl v)) else v)"

record yaml_state =
  result :: dict
  current_key :: "string option"
  current_lines :: "string list"
  is_multiline :: bool

definition flush_key :: "yaml_state \<Rightarrow> dict" where
  \<comment> \<open>\<^verbatim>\<open>if current_key is not None: result[current_key] = _flush(current_lines)\<close>\<close>
  "flush_key st =
     (case current_key st of
        None \<Rightarrow> result st
      | Some k \<Rightarrow> AList.update k (flush (current_lines st)) (result st))"

definition yaml_continue :: "yaml_state \<Rightarrow> string \<Rightarrow> yaml_state" where
  \<comment> \<open>the \<^verbatim>\<open>elif\<close> branch of the loop, and the silent \<^verbatim>\<open>else\<close>\<close>
  "yaml_continue st line =
     (if is_multiline st \<and> current_key st \<noteq> None
      then st\<lparr>current_lines := current_lines st @ [strip line]\<rparr>
      else st)"

definition yaml_step :: "yaml_state \<Rightarrow> string \<Rightarrow> yaml_state" where
  \<comment> \<open>one round of the loop over the lines of the block\<close>
  "yaml_step st line =
     (case YAML_KEY_RE_match line of
        None \<Rightarrow> yaml_continue st line
      | Some (key, group2) \<Rightarrow>
          if is_multiline st \<and> startswith line '' '' then yaml_continue st line
          else
            (let v = strip group2 in
             if v = ''|''
             then \<lparr>result = flush_key st, current_key = Some key,
                   current_lines = [], is_multiline = True\<rparr>
             else \<lparr>result = flush_key st, current_key = Some key,
                   current_lines = [unquote v], is_multiline = False\<rparr>))"

definition parse_yaml_flat :: "string \<Rightarrow> dict" where
  "parse_yaml_flat raw =
     flush_key (foldl yaml_step
       \<lparr>result = [], current_key = None, current_lines = [], is_multiline = False\<rparr>
       (split_on (CHR 0x0A) raw))"

definition FRONTMATTER_RE_match :: "string \<Rightarrow> string option" where
  \<comment> \<open>group 1 of \<^verbatim>\<open>FRONTMATTER_RE.match(text)\<close> for \<^verbatim>\<open>\A---\s*\n(.*?\n)---\s*\n\<close> under
      \<^verbatim>\<open>re.DOTALL\<close>, or \<open>None\<close>\<close>
  "FRONTMATTER_RE_match text =
     (case [(a, b).
              a \<leftarrow> re_seq (re_str ''---'') (re_seq (re_star is_space) (re_lit (CHR 0x0A))) (None, text),
              b \<leftarrow> re_seq (re_star_lazy (\<lambda>c. True)) (re_lit (CHR 0x0A)) a,
              e \<leftarrow> re_seq (re_str ''---'') (re_seq (re_star is_space) (re_lit (CHR 0x0A))) b] of
        [] \<Rightarrow> None
      | (a, b) # rest \<Rightarrow> Some (take (length (snd a) - length (snd b)) (snd a)))"

section \<open>Files\<close>

text \<open>
  Paths are POSIX paths. A path is the list of its components below the repository root
  \<^verbatim>\<open>REPO_ROOT\<close>, whose own components are the parameter \<open>root\<close> of the functions that
  need them. The file system is the list of the regular files under the root, each with
  its content as stored, in the order in which the operating system happens to enumerate
  them; a directory exists when a file lies under it. Every file the scanners match is
  taken to be readable UTF-8 text: otherwise \<^verbatim>\<open>read_text\<close> raises and the run ends
  without output.
\<close>

type_synonym relpath = "string list"
type_synonym repo_file = "relpath \<times> string"
type_synonym filesystem = "repo_file list"

fun universal_newlines :: "string \<Rightarrow> string" where
  \<comment> \<open>Python opens a file for reading in text mode with \<^verbatim>\<open>newline=None\<close>: a carriage
      return followed by a line feed, and a carriage return alone, are read as one line feed.\<close>
  "universal_newlines [] = []"
| "universal_newlines [c] = [if c = CHR 0x0D then CHR 0x0A else c]"
| "universal_newlines (c # d # ds) =
     (if c = CHR 0x0D \<and> d = CHR 0x0A then CHR 0x0A # universal_newlines ds
      else if c = CHR 0x0D then CHR 0x0A # universal_newlines (d # ds)
      else c # universal_newlines (d # ds))"

definition read_text :: "string \<Rightarrow> string" where
  \<comment> \<open>\<^verbatim>\<open>Path.read_text(encoding="utf-8")\<close> of a file with the stored content \<open>raw\<close>\<close>
  "read_text raw = universal_newlines raw"

definition parse_frontmatter :: "repo_file \<Rightarrow> dict option" where
  "parse_frontmatter f =
     (case FRONTMATTER_RE_match (read_text (snd f)) of
        None \<Rightarrow> None
      | Some raw \<Rightarrow> Some (parse_yaml_flat raw))"

definition is_under :: "relpath \<Rightarrow> relpath \<Rightarrow> bool" where
  "is_under dir p = (length dir < length p \<and> take (length dir) p = dir)"

definition glob_md :: "filesystem \<Rightarrow> relpath \<Rightarrow> repo_file list" where
  \<comment> \<open>\<^verbatim>\<open>dir.glob("*.md")\<close>: the files directly in \<open>dir\<close> whose name ends in \<^verbatim>\<open>.md\<close>\<close>
  "glob_md fs dir =
     filter (\<lambda>f. is_under dir (fst f) \<and> length (fst f) = Suc (length dir)
                 \<and> endswith (last (fst f)) ''.md'') fs"

definition rglob_md :: "filesystem \<Rightarrow> relpath \<Rightarrow> repo_file list" where
  \<comment> \<open>\<^verbatim>\<open>dir.rglob("*.md")\<close>: the files at any depth under \<open>dir\<close> whose name ends in \<^verbatim>\<open>.md\<close>\<close>
  "rglob_md fs dir = filter (\<lambda>f. is_under dir (fst f) \<and> endswith (last (fst f)) ''.md'') fs"

definition rglob_skill :: "filesystem \<Rightarrow> relpath \<Rightarrow> repo_file list" where
  \<comment> \<open>\<^verbatim>\<open>dir.rglob("SKILL.md")\<close>\<close>
  "rglob_skill fs dir = filter (\<lambda>f. is_under dir (fst f) \<and> last (fst f) = ''SKILL.md'') fs"

definition sorted_paths :: "repo_file list \<Rightarrow> repo_file list" where
  \<comment> \<open>\<^verbatim>\<open>sorted(...)\<close> of paths: component by component, each as a string\<close>
  "sorted_paths fs = sort_key fst fs"

definition path_exists :: "filesystem \<Rightarrow> relpath \<Rightarrow> bool" where
  "path_exists fs p = list_ex (\<lambda>f. take (length p) (fst f) = p) fs"

definition abs_str :: "relpath \<Rightarrow> relpath \<Rightarrow> string" where
  \<comment> \<open>\<^verbatim>\<open>str(f)\<close> of the absolute path of \<open>p\<close>; \<open>root\<close> holds the components of
      \<^verbatim>\<open>REPO_ROOT\<close>\<close>
  "abs_str root p = ''/'' @ join ''/'' (root @ p)"

definition stem :: "string \<Rightarrow> string" where
  \<comment> \<open>\<^verbatim>\<open>PurePath.stem\<close>: the name without its last suffix; a dot that starts or ends the
      name opens no suffix\<close>
  "stem nm =
     (let i = length nm - Suc (length (takeWhile (\<lambda>c. c \<noteq> CHR ''.'') (rev nm)))
      in if CHR ''.'' \<in> set nm \<and> 0 < i \<and> i < length nm - 1 then take i nm else nm)"

fun title_from :: "bool \<Rightarrow> string \<Rightarrow> string" where
  "title_from previous_is_cased [] = []"
| "title_from previous_is_cased (c # cs) =
     (if previous_is_cased then lower c else upper c) # title_from (is_cased c) cs"

definition title :: "string \<Rightarrow> string" where
  \<comment> \<open>\<^verbatim>\<open>s.title()\<close>\<close>
  "title s = title_from False s"

section \<open>Discovery\<close>

record entry =
  name :: string
  description :: string
  path :: string
  category :: "string option"

definition missing_name :: "dict option \<Rightarrow> bool" where
  \<comment> \<open>the test \<^verbatim>\<open>not fm or "name" not in fm\<close>: no block, an empty mapping, or no name\<close>
  "missing_name fm = (case fm of None \<Rightarrow> True | Some d \<Rightarrow> d = [] \<or> map_of d ''name'' = None)"

definition dict_get :: "dict option \<Rightarrow> string \<Rightarrow> string \<Rightarrow> string" where
  \<comment> \<open>\<^verbatim>\<open>fm.get(k, default)\<close>; also \<^verbatim>\<open>fm[k]\<close> where the key is known to be there\<close>
  "dict_get fm k dflt =
     (case fm of None \<Rightarrow> dflt
      | Some d \<Rightarrow> (case map_of d k of None \<Rightarrow> dflt | Some v \<Rightarrow> v))"

definition warning :: "relpath \<Rightarrow> repo_file \<Rightarrow> string" where
  "warning root f = ''WARNING: '' @ abs_str root (fst f) @ '' has no frontmatter, skipping''"

definition make_entry :: "dict option \<Rightarrow> string \<Rightarrow> string option \<Rightarrow> entry" where
  \<comment> \<open>the dictionary that every scanner appends: \<^verbatim>\<open>fm["name"]\<close>, the normalized
      \<^verbatim>\<open>fm.get("description", "")\<close>, the path, and for agents the category\<close>
  "make_entry fm p cat =
     \<lparr>name = dict_get fm ''name'' [],
      description = extract_catalog_description (dict_get fm ''description'' []),
      path = p, category = cat\<rparr>"

fun discover_rules_loop :: "relpath \<Rightarrow> repo_file list \<Rightarrow> entry list \<times> string list \<Rightarrow> entry list \<times> string list" where
  "discover_rules_loop root [] acc = acc"
| "discover_rules_loop root (f # fs) (entries, err) =
     (let fm = parse_frontmatter f in
      if missing_name fm then discover_rules_loop root fs (entries, err @ [warning root f])
      else discover_rules_loop root fs
             (entries @ [make_entry fm (''../rules/'' @ last (fst f)) None], err))"

definition discover_rules :: "relpath \<Rightarrow> filesystem \<Rightarrow> entry list \<times> string list" where
  \<comment> \<open>the entries, and the lines printed to \<^verbatim>\<open>sys.stderr\<close>\<close>
  "discover_rules root fs = discover_rules_loop root (sorted_paths (glob_md fs [''rules''])) ([], [])"

definition skill_category :: "relpath \<Rightarrow> string" where
  \<comment> \<open>\<^verbatim>\<open>_skill_category\<close>: the components after \<^verbatim>\<open>skills\<close> without the last two\<close>
  "skill_category p = (let parts = drop 1 p in join ''/'' (take (length parts - 2) parts))"

type_synonym by_category = "(string \<times> entry list) list"

definition setdefault_append :: "string \<Rightarrow> entry \<Rightarrow> by_category \<Rightarrow> by_category" where
  \<comment> \<open>\<^verbatim>\<open>by_category.setdefault(cat, []).append(e)\<close>\<close>
  "setdefault_append cat e bc =
     (case map_of bc cat of
        None \<Rightarrow> bc @ [(cat, [e])]
      | Some es \<Rightarrow> AList.update cat (es @ [e]) bc)"

fun discover_skills_loop :: "relpath \<Rightarrow> repo_file list \<Rightarrow> by_category \<times> string list \<Rightarrow> by_category \<times> string list" where
  "discover_skills_loop root [] acc = acc"
| "discover_skills_loop root (f # fs) (bc, err) =
     (let fm = parse_frontmatter f in
      if missing_name fm then discover_skills_loop root fs (bc, err @ [warning root f])
      else discover_skills_loop root fs
             (setdefault_append (skill_category (fst f))
                (make_entry fm (''../'' @ join ''/'' (fst f)) None) bc, err))"

definition discover_skills :: "relpath \<Rightarrow> filesystem \<Rightarrow> by_category \<times> string list" where
  "discover_skills root fs =
     discover_skills_loop root (sorted_paths (rglob_skill fs [''skills''])) ([], [])"

fun discover_agents_loop :: "relpath \<Rightarrow> repo_file list \<Rightarrow> entry list \<Rightarrow> entry list" where
  "discover_agents_loop root [] entries = entries"
| "discover_agents_loop root (f # fs) entries =
     (if ''_archive'' \<in> set (root @ fst f) then discover_agents_loop root fs entries
      else if endswith (stem (last (fst f))) ''-reference'' \<or> last (fst f) = ''README.md''
      then discover_agents_loop root fs entries
      else
        (let fm = parse_frontmatter f in
         if missing_name fm then discover_agents_loop root fs entries
         else discover_agents_loop root fs
                (entries @ [make_entry fm (''../'' @ join ''/'' (fst f))
                              (Some (title (last (butlast (fst f)))))])))"

definition discover_agents :: "relpath \<Rightarrow> filesystem \<Rightarrow> entry list" where
  "discover_agents root fs = discover_agents_loop root (sorted_paths (rglob_md fs [''agents''])) []"

fun discover_custom_skills_loop :: "repo_file list \<Rightarrow> entry list \<Rightarrow> entry list" where
  "discover_custom_skills_loop [] entries = entries"
| "discover_custom_skills_loop (f # fs) entries =
     (let fm = parse_frontmatter f in
      if missing_name fm then discover_custom_skills_loop fs entries
      else discover_custom_skills_loop fs
             (entries @ [make_entry fm (''../'' @ join ''/'' (fst f)) None]))"

definition discover_custom_skills :: "filesystem \<Rightarrow> entry list" where
  "discover_custom_skills fs =
     (if \<not> path_exists fs [''custom'', ''skills''] then []
      else discover_custom_skills_loop (sorted_paths (rglob_skill fs [''custom'', ''skills''])) [])"

fun discover_custom_agents_loop :: "repo_file list \<Rightarrow> entry list \<Rightarrow> entry list" where
  "discover_custom_agents_loop [] entries = entries"
| "discover_custom_agents_loop (f # fs) entries =
     (if last (fst f) = ''README.md'' then discover_custom_agents_loop fs entries
      else
        (let fm = parse_frontmatter f in
         if missing_name fm then discover_custom_agents_loop fs entries
         else discover_custom_agents_loop fs
                (entries @ [make_entry fm (''../'' @ join ''/'' (fst f)) None])))"

definition discover_custom_agents :: "filesystem \<Rightarrow> entry list" where
  "discover_custom_agents fs =
     (if \<not> path_exists fs [''custom'', ''agents''] then []
      else discover_custom_agents_loop (sorted_paths (rglob_md fs [''custom'', ''agents''])) [])"

section \<open>Rendering\<close>

definition SKILL_CATEGORY_ORDER :: "string list" where
  "SKILL_CATEGORY_ORDER = [''meta'', ''build/backend'', ''build/frontend'', ''workflow'', ''patterns'']"

definition em_dash :: string where
  \<comment> \<open>U+2014 in UTF-8\<close>
  "em_dash = [CHR 0xE2, CHR 0x80, CHR 0x94]"

definition SKILL_CATEGORY_DISPLAY :: "(string \<times> string) list" where
  "SKILL_CATEGORY_DISPLAY =
     [(''meta'', ''Meta''),
      (''build/backend'', ''Build '' @ em_dash @ '' Backend''),
      (''build/frontend'', ''Build '' @ em_dash @ '' Frontend''),
      (''workflow'', ''Workflow''),
      (''patterns'', ''Patterns'')]"

definition digit_char :: "nat \<Rightarrow> char" where
  "digit_char d = ''0123456789'' ! d"

function str_nat :: "nat \<Rightarrow> string" where
  \<comment> \<open>\<^verbatim>\<open>str(n)\<close> of a length, as the f-strings format it\<close>
  "str_nat n = (if n < 10 then [digit_char n] else str_nat (n div 10) @ [digit_char (n mod 10)])"
  by pat_completeness auto
termination
  by (relation "measure id") auto

declare str_nat.simps [simp del]

definition row2 :: "entry \<Rightarrow> string" where
  \<comment> \<open>a row of a table of two columns\<close>
  "row2 e = ''| ['' @ name e @ '']('' @ path e @ '') | '' @ description e @ '' |''"

definition row3 :: "entry \<Rightarrow> string" where
  \<comment> \<open>a row of the agents' table; \<^verbatim>\<open>a['category']\<close> is set on every agent entry\<close>
  "row3 e = ''| ['' @ name e @ '']('' @ path e @ '') | ''
            @ (case category e of None \<Rightarrow> [] | Some c \<Rightarrow> c) @ '' | '' @ description e @ '' |''"

definition total_skills :: "by_category \<Rightarrow> nat" where
  \<comment> \<open>\<^verbatim>\<open>sum(len(v) for v in skills_by_cat.values())\<close>\<close>
  "total_skills skills_by_cat = sum_list (map (\<lambda>kv. length (snd kv)) skills_by_cat)"

definition header_lines :: "string list" where
  "header_lines =
     [''<!-- AUTO-GENERATED by scripts/generate-catalog.py '' @ em_dash @ '' do not edit manually -->'',
      [],
      ''# Skill Library '' @ em_dash @ '' Catalog'',
      [],
      ''> [README](../README.md) | **CATALOG** | [SKILLS-EXPLAINED](SKILLS-EXPLAINED.md) | [ARTICLE](ARTICLE.md)'',
      [],
      ''> [!TIP]'',
      ''> To install any skill or agent below, see [Quickstart](../README.md#quickstart) in the README.'',
      []]"

definition rules_lines :: "entry list \<Rightarrow> string list" where
  "rules_lines rules =
     [''## Rules ('' @ str_nat (length rules) @ '')'',
      [],
      ''*Always loaded '' @ em_dash @ '' shape every interaction.*'',
      [],
      ''| Name | Description |'',
      ''|------|------------|'']
     @ map row2 rules
     @ [[], ''---'', []]"

definition skill_category_lines :: "by_category \<Rightarrow> string \<Rightarrow> string list" where
  \<comment> \<open>one round of the loop over \<^verbatim>\<open>SKILL_CATEGORY_ORDER\<close>\<close>
  "skill_category_lines skills_by_cat cat_key =
     (let cat_skills = (case map_of skills_by_cat cat_key of None \<Rightarrow> [] | Some v \<Rightarrow> v) in
      if cat_skills = [] then []
      else
        (let display = (case map_of SKILL_CATEGORY_DISPLAY cat_key of
                          None \<Rightarrow> title cat_key | Some d \<Rightarrow> d)
         in [''### '' @ display @ '' ('' @ str_nat (length cat_skills) @ '')'',
             [],
             ''| Name | Description |'',
             ''|------|------------|'']
            @ map row2 cat_skills
            @ [[]]))"

definition skills_lines :: "by_category \<Rightarrow> string list" where
  "skills_lines skills_by_cat =
     [''## Skills ('' @ str_nat (total_skills skills_by_cat) @ '')'',
      [],
      ''*Load on demand '' @ em_dash @ '' teach Claude specialized workflows.*'',
      []]
     @ concat (map (skill_category_lines skills_by_cat) SKILL_CATEGORY_ORDER)
     @ [''---'', []]"

definition agents_lines :: "entry list \<Rightarrow> string list" where
  "agents_lines agents =
     [''## Agents ('' @ str_nat (length agents) @ '')'',
      [],
      ''*Isolated subprocesses '' @ em_dash @ '' zero parent context in, result out.*'',
      [],
      ''| Name | Category | Description |'',
      ''|------|----------|------------|'']
     @ map row3 agents
     @ [[], ''---'', []]"

definition custom_table :: "string \<Rightarrow> entry list \<Rightarrow> string list" where
  \<comment> \<open>the block under \<^verbatim>\<open>if custom_skills:\<close>, and the one under \<^verbatim>\<open>if custom_agents:\<close>\<close>
  "custom_table heading es =
     (if es = [] then []
      else [''### '' @ heading @ '' ('' @ str_nat (length es) @ '')'',
            [],
            ''| Name | Description |'',
            ''|------|------------|'']
           @ map row2 es
           @ [[]])"

definition custom_lines :: "entry list \<Rightarrow> entry list \<Rightarrow> string list" where
  "custom_lines custom_skills custom_agents =
     [''## Custom'', []]
     @ (if custom_skills \<noteq> [] \<or> custom_agents \<noteq> []
        then custom_table ''Custom Skills'' custom_skills @ custom_table ''Custom Agents'' custom_agents
        else [''*Your project-specific skills and agents '' @ em_dash
              @ '' not tracked by upstream. See [custom/README.md](../custom/README.md) to get started.*'',
              []])"

definition catalog_lines ::
  "entry list \<Rightarrow> by_category \<Rightarrow> entry list \<Rightarrow> entry list \<Rightarrow> entry list \<Rightarrow> string list" where
  \<comment> \<open>the list \<^verbatim>\<open>lines\<close> that \<^verbatim>\<open>render_catalog\<close> builds from the five collections\<close>
  "catalog_lines rules skills_by_cat agents custom_skills custom_agents =
     header_lines @ rules_lines rules @ skills_lines skills_by_cat @ agents_lines agents
     @ custom_lines custom_skills custom_agents"

definition render_catalog :: "relpath \<Rightarrow> filesystem \<Rightarrow> string \<times> string list" where
  \<comment> \<open>the text returned, and the lines the scanners printed to \<^verbatim>\<open>sys.stderr\<close>\<close>
  "render_catalog root fs =
     (let (rules, err1) = discover_rules root fs;
          (skills_by_cat, err2) = discover_skills root fs;
          agents = discover_agents root fs;
          custom_skills = discover_custom_skills fs;
          custom_agents = discover_custom_agents fs
      in (join [CHR 0x0A] (catalog_lines rules skills_by_cat agents custom_skills custom_agents),
          err1 @ err2))"

section \<open>The entry point\<close>

record run =
  exit_code :: nat
  stdout :: "string list"
  stderr :: "string list"
  files :: filesystem

definition output_path :: relpath where
  "output_path = [''docs'', ''CATALOG.md'']"

definition write_text :: "filesystem \<Rightarrow> relpath \<Rightarrow> string \<Rightarrow> filesystem" where
  \<comment> \<open>\<^verbatim>\<open>Path.write_text\<close>, where the line separator is the line feed and the directory of the
      file exists: the content is replaced, or the file is created\<close>
  "write_text fs p content =
     (if p \<in> set (map fst fs) then map (\<lambda>f. if fst f = p then (p, content) else f) fs
      else fs @ [(p, content)])"

definition out_of_date :: string where
  "out_of_date = ''ERROR: CATALOG.md is out of date. Run '' @ [CHR 0x27]
     @ ''python3 scripts/generate-catalog.py'' @ [CHR 0x27] @ '' and commit.''"

definition main :: "relpath \<Rightarrow> string list \<Rightarrow> filesystem \<Rightarrow> run" where
  \<comment> \<open>\<open>argv\<close> is \<^verbatim>\<open>sys.argv\<close>; \<^verbatim>\<open>sys.exit(n)\<close> ends the run with the exit code \<open>n\<close>\<close>
  "main root argv fs =
     (let check_mode = (''--check'' \<in> set argv);
          (catalog, warnings) = render_catalog root fs
      in if check_mode then
           (case map_of fs output_path of
              None \<Rightarrow>
                \<lparr>exit_code = 1, stdout = [],
                 stderr = warnings @ [''ERROR: docs/CATALOG.md does not exist.''], files = fs\<rparr>
            | Some raw \<Rightarrow>
                if read_text raw = catalog
                then \<lparr>exit_code = 0, stdout = [''CATALOG.md is up to date.''],
                      stderr = warnings, files = fs\<rparr>
                else \<lparr>exit_code = 1, stdout = [],
                      stderr = warnings @ [out_of_date], files = fs\<rparr>)
         else \<lparr>exit_code = 0, stdout = [''Generated '' @ abs_str root output_path],
               stderr = warnings, files = write_text fs output_path catalog\<rparr>)"

section \<open>Notions for stating the properties\<close>


fun star_end :: "(char \<Rightarrow> bool) \<Rightarrow> rstate \<Rightarrow> rstate" where
  \<comment> \<open>the position after the longest run of characters of a class\<close>
  "star_end P (p, []) = (p, [])"
| "star_end P (p, c # cs) = (if P c then star_end P (Some c, cs) else (p, c # cs))"

definition key_re_simple :: "string \<Rightarrow> (string \<times> string) option" where
  \<comment> \<open>what \<^const>\<open>YAML_KEY_RE_match\<close> finds, without backtracking: the classes that follow one
      another in the pattern share no character\<close>
  "key_re_simple line =
     (case line of
        [] \<Rightarrow> None
      | c # cs \<Rightarrow>
          if \<not> is_word c then None
          else (case dropWhile is_space (dropWhile key_char cs) of
                  [] \<Rightarrow> None
                | d # r \<Rightarrow>
                    if d = CHR '':''
                    then Some (c # takeWhile key_char cs,
                               takeWhile (\<lambda>c. c \<noteq> CHR 0x0A) (dropWhile is_space r))
                    else None))"

definition valid_key :: "string \<Rightarrow> bool" where
  \<comment> \<open>an identifier key: a word character, then word characters and hyphens\<close>
  "valid_key k = (k \<noteq> [] \<and> is_word (hd k) \<and> list_all key_char (tl k))"

definition key_line :: "string \<Rightarrow> bool" where
  \<comment> \<open>a line that starts a new key\<close>
  "key_line l = (YAML_KEY_RE_match l \<noteq> None)"

definition key_of :: "string \<Rightarrow> string option" where
  "key_of l = map_option fst (YAML_KEY_RE_match l)"














definition usable :: "repo_file \<Rightarrow> bool" where
  \<comment> \<open>the file has a metadata block with a name\<close>
  "usable f = (\<not> missing_name (parse_frontmatter f))"

definition rule_entry :: "repo_file \<Rightarrow> entry" where
  "rule_entry f = make_entry (parse_frontmatter f) (''../rules/'' @ last (fst f)) None"

definition skill_entry :: "repo_file \<Rightarrow> entry" where
  \<comment> \<open>the entry of a skill, a custom skill or a custom agent\<close>
  "skill_entry f = make_entry (parse_frontmatter f) (''../'' @ join ''/'' (fst f)) None"

definition agent_entry :: "repo_file \<Rightarrow> entry" where
  \<comment> \<open>the category is the title-cased name of the directory the file is in\<close>
  "agent_entry f =
     make_entry (parse_frontmatter f) (''../'' @ join ''/'' (fst f))
       (Some (title (last (butlast (fst f)))))"

definition agent_excluded :: "relpath \<Rightarrow> repo_file \<Rightarrow> bool" where
  \<comment> \<open>a component of the absolute path is \<^verbatim>\<open>_archive\<close>, or the name without its suffix ends
      in \<^verbatim>\<open>-reference\<close>, or the name is \<^verbatim>\<open>README.md\<close>\<close>
  "agent_excluded root f =
     (''_archive'' \<in> set (root @ fst f)
      \<or> endswith (stem (last (fst f))) ''-reference''
      \<or> last (fst f) = ''README.md'')"

definition add_skill :: "by_category \<Rightarrow> repo_file \<Rightarrow> by_category" where
  \<comment> \<open>the entry of a skill file put under the category of its path\<close>
  "add_skill bc f = setdefault_append (skill_category (fst f)) (skill_entry f) bc"

definition rule_files :: "filesystem \<Rightarrow> repo_file list" where
  "rule_files fs = sorted_paths (glob_md fs [''rules''])"

definition skill_files :: "filesystem \<Rightarrow> repo_file list" where
  "skill_files fs = sorted_paths (rglob_skill fs [''skills''])"

definition agent_files :: "filesystem \<Rightarrow> repo_file list" where
  "agent_files fs = sorted_paths (rglob_md fs [''agents''])"

definition custom_skill_files :: "filesystem \<Rightarrow> repo_file list" where
  "custom_skill_files fs = sorted_paths (rglob_skill fs [''custom'', ''skills''])"

definition custom_agent_files :: "filesystem \<Rightarrow> repo_file list" where
  "custom_agent_files fs = sorted_paths (rglob_md fs [''custom'', ''agents''])"

definition listed_skills :: "by_category \<Rightarrow> by_category" where
  \<comment> \<open>the categories that have a place in the display order\<close>
  "listed_skills bc = filter (\<lambda>kv. fst kv \<in> set SKILL_CATEGORY_ORDER) bc"

definition unlisted_skills :: "by_category \<Rightarrow> by_category" where
  "unlisted_skills bc = filter (\<lambda>kv. fst kv \<notin> set SKILL_CATEGORY_ORDER) bc"

definition section_heading :: "string \<Rightarrow> bool" where
  \<comment> \<open>a line that is the heading of a section or of a subsection\<close>
  "section_heading l = (startswith l ''## '' \<or> startswith l ''### '')"

definition with_count :: "string \<Rightarrow> nat \<Rightarrow> string" where
  \<comment> \<open>a heading followed by a count in parentheses\<close>
  "with_count h n = h @ '' ('' @ str_nat n @ '')''"

definition shows_count :: "string \<Rightarrow> bool" where
  \<comment> \<open>the line holds a number\<close>
  "shows_count l = list_ex (\<lambda>c. c \<in> set ''0123456789'') l"

definition skill_subsection_headings :: "by_category \<Rightarrow> string list" where
  \<comment> \<open>one heading for every category of the display order that has entries\<close>
  "skill_subsection_headings bc =
     concat (map (\<lambda>k. case map_of bc k of
                         None \<Rightarrow> []
                       | Some es \<Rightarrow>
                           if es = [] then []
                           else [with_count (''### '' @ (case map_of SKILL_CATEGORY_DISPLAY k of
                                                          None \<Rightarrow> title k | Some d \<Rightarrow> d))
                                   (length es)])
                 SKILL_CATEGORY_ORDER)"

definition empty_catalog :: string where
  \<comment> \<open>the catalog of a repository without rules, skills and agents\<close>
  "empty_catalog = join [CHR 0x0A] (catalog_lines [] [] [] [] [])"

section \<open>Facts about the matchers\<close>


lemma re_star_hd: "re_star P (p, s) \<noteq> [] \<and> hd (re_star P (p, s)) = star_end P (p, s)"
  by (induction s arbitrary: p) (auto simp: hd_append)

lemma re_star_first: "\<exists>rest. re_star P (p, s) = star_end P (p, s) # rest"
  using re_star_hd [of P p s] by (cases "re_star P (p, s)") auto

lemma snd_star_end: "snd (star_end P (p, s)) = dropWhile P s"
  by (induction s arbitrary: p) auto

lemma concat_map_re_star:
  assumes "\<And>p c cs. P c \<Longrightarrow> f (p, c # cs) = []"
  shows "concat (map f (re_star P (p, s))) = f (star_end P (p, s))"
  using assms by (induction s arbitrary: p) auto

lemma length_minus_dropWhile:
  "length xs - length (dropWhile P xs) = length (takeWhile P xs)"
proof -
  have "length (takeWhile P xs @ dropWhile P xs) = length xs"
    by simp
  then show ?thesis
    by (simp del: takeWhile_dropWhile_id)
qed

lemma key_char_not_space: "key_char c \<Longrightarrow> \<not> is_space c"
  by (auto simp: key_char_def is_space_def is_word_def ascii_lowercase_def ascii_uppercase_def)

lemma key_char_not_colon: "key_char c \<Longrightarrow> c \<noteq> CHR '':''"
  by (auto simp: key_char_def is_word_def ascii_lowercase_def ascii_uppercase_def)

lemma space_not_colon: "is_space c \<Longrightarrow> c \<noteq> CHR '':''"
  by (auto simp: is_space_def)

lemma sep_fails_on_key_char:
  "key_char c \<Longrightarrow> re_seq (re_star is_space) (re_seq (re_lit (CHR '':'')) (re_star is_space)) (p, c # cs) = []"
  by (simp add: re_seq_def re_lit_def re_cls_def key_char_not_space key_char_not_colon)

lemma colon_fails_on_space:
  "is_space c \<Longrightarrow> re_seq (re_lit (CHR '':'')) (re_star is_space) (p, c # cs) = []"
  by (simp add: re_seq_def re_lit_def re_cls_def space_not_colon)

lemma sep_eval:
  "re_seq (re_star is_space) (re_seq (re_lit (CHR '':'')) (re_star is_space)) (p, s) =
     (case dropWhile is_space s of [] \<Rightarrow> []
      | d # r \<Rightarrow> if d = CHR '':'' then re_star is_space (Some d, r) else [])"
proof -
  define r0 where "r0 = dropWhile is_space s"
  obtain a where a: "star_end is_space (p, s) = (a, r0)"
    using snd_star_end [of is_space p s] unfolding r0_def
    by (cases "star_end is_space (p, s)") auto
  have "re_seq (re_star is_space) (re_seq (re_lit (CHR '':'')) (re_star is_space)) (p, s)
        = re_seq (re_lit (CHR '':'')) (re_star is_space) (star_end is_space (p, s))"
    unfolding re_seq_def [of "re_star is_space"]
    by (rule concat_map_re_star) (rule colon_fails_on_space)
  also have "\<dots> = (case r0 of [] \<Rightarrow> []
      | d # r \<Rightarrow> if d = CHR '':'' then re_star is_space (Some d, r) else [])"
    unfolding a by (cases r0) (simp_all add: re_seq_def re_lit_def re_cls_def)
  finally show ?thesis
    unfolding r0_def .
qed

lemma YAML_KEY_RE_match_eq: "YAML_KEY_RE_match line = key_re_simple line"
proof (cases line)
  case Nil
  then show ?thesis
    by (simp add: YAML_KEY_RE_match_def key_re_simple_def re_seq_def re_cls_def)
next
  case (Cons c cs)
  note line = this
  show ?thesis
  proof (cases "is_word c")
    case False
    then show ?thesis
      by (simp add: line YAML_KEY_RE_match_def key_re_simple_def re_seq_def re_cls_def)
  next
    case True
    let ?nonl = "\<lambda>c. c \<noteq> CHR 0x0A"
    let ?sep = "re_seq (re_star is_space) (re_seq (re_lit (CHR '':'')) (re_star is_space))"
    let ?F = "\<lambda>k. concat (map (\<lambda>v. map (\<lambda>e. (k, v, e)) (re_star ?nonl v)) (?sep k))"
    define k0 where "k0 = dropWhile key_char cs"
    define r0 where "r0 = dropWhile is_space k0"
    obtain a where a: "star_end key_char (Some c, cs) = (a, k0)"
      using snd_star_end [of key_char "Some c" cs] unfolding k0_def
      by (cases "star_end key_char (Some c, cs)") auto
    have "concat (map ?F (re_star key_char (Some c, cs))) = ?F (star_end key_char (Some c, cs))"
      by (rule concat_map_re_star) (simp add: sep_fails_on_key_char)
    then have all: "[(k, v, e).
              k \<leftarrow> re_seq (re_cls is_word) (re_star key_char) (None, line),
              v \<leftarrow> ?sep k,
              e \<leftarrow> re_star ?nonl v] = ?F (a, k0)"
      using True by (simp add: line re_seq_def [of "re_cls is_word"] re_cls_def a)
    have simple: "key_re_simple line =
        (case r0 of [] \<Rightarrow> None
         | d # r \<Rightarrow> if d = CHR '':''
              then Some (c # takeWhile key_char cs, takeWhile ?nonl (dropWhile is_space r))
              else None)"
      using True by (simp add: key_re_simple_def line r0_def k0_def)
    have sep: "?sep (a, k0) = (case r0 of [] \<Rightarrow> []
        | d # r \<Rightarrow> if d = CHR '':'' then re_star is_space (Some d, r) else [])"
      unfolding r0_def by (rule sep_eval)
    show ?thesis
    proof (cases r0)
      case Nil
      then show ?thesis
        by (simp add: YAML_KEY_RE_match_def all sep simple)
    next
      case (Cons d r)
      note dr = this
      show ?thesis
      proof (cases "d = CHR '':''")
        case False
        then show ?thesis
          by (simp add: YAML_KEY_RE_match_def all sep simple dr)
      next
        case d: True
        define v0 where "v0 = dropWhile is_space r"
        obtain rest1 where r1: "re_star is_space (Some (CHR '':''), r)
             = star_end is_space (Some (CHR '':''), r) # rest1"
          using re_star_first by blast
        obtain b where b: "star_end is_space (Some (CHR '':''), r) = (b, v0)"
          using snd_star_end [of is_space "Some (CHR '':'')" r] unfolding v0_def
          by (cases "star_end is_space (Some (CHR '':''), r)") auto
        obtain rest2 where r2: "re_star ?nonl (b, v0) = star_end ?nonl (b, v0) # rest2"
          using re_star_first by blast
        obtain e where e: "star_end ?nonl (b, v0) = (e, dropWhile ?nonl v0)"
          using snd_star_end [of ?nonl b v0] by (cases "star_end ?nonl (b, v0)") auto
        have len: "length v0 - length (dropWhile ?nonl v0) = length (takeWhile ?nonl v0)"
          by (simp add: length_minus_dropWhile)
        have klen: "length line - length k0 = Suc (length (takeWhile key_char cs))"
        proof -
          have "length (takeWhile key_char cs @ dropWhile key_char cs) = length cs"
            by simp
          then have "length (takeWhile key_char cs) + length (dropWhile key_char cs) = length cs"
            by (simp del: takeWhile_dropWhile_id)
          then show ?thesis
            unfolding line k0_def list.size by linarith
        qed
        have "YAML_KEY_RE_match line = Some (take (Suc (length (takeWhile key_char cs))) line,
                 take (length (takeWhile ?nonl v0)) v0)"
          by (simp add: YAML_KEY_RE_match_def all sep dr d r1 b r2 e len klen)
        also have "take (Suc (length (takeWhile key_char cs))) line = c # takeWhile key_char cs"
          unfolding line by (simp add: takeWhile_eq_take [symmetric])
        also have "take (length (takeWhile ?nonl v0)) v0 = takeWhile ?nonl v0"
          by (simp add: takeWhile_eq_take [symmetric])
        finally show ?thesis
          by (simp add: simple dr d v0_def)
      qed
    qed
  qed
qed

section \<open>Facts about the metadata parser\<close>

















section \<open>Facts about the description normalizer\<close>






































section \<open>Rules for evaluating the model on concrete inputs\<close>

lemmas chars_eval =
  is_space_def is_word_def lower_def upper_def is_cased_def ascii_lowercase_def ascii_uppercase_def

lemmas text_eval =
  strip_def startswith_def endswith_def split_ws.simps

lemmas re_eval =
  re_seq_def re_alt_def re_opt_def re_bol_def re_wordb_def re_cls_def re_lit_def re_lit_ci_def

lemmas normalizer_eval =
  extract_catalog_description_def re_search_start_def STOP_PATTERNS_def STOP_alternatives_def

lemmas key_eval =
  valid_key_def key_line_def key_of_def YAML_KEY_RE_match_eq key_re_simple_def key_char_def

lemmas yaml_eval =
  parse_yaml_flat_def yaml_step_def yaml_continue_def flush_key_def flush_def unquote_def

lemmas frontmatter_eval =
  parse_frontmatter_def read_text_def FRONTMATTER_RE_match_def missing_name_def

lemmas fs_eval =
  glob_md_def rglob_md_def rglob_skill_def is_under_def sorted_paths_def path_exists_def stem_def

lemmas entry_eval =
  make_entry_def dict_get_def title_def

section \<open>Facts about the scanners\<close>

lemma discover_rules_loop_eq:
  "discover_rules_loop root fs (es, err) =
     (es @ map rule_entry (filter usable fs),
      err @ map (warning root) (filter (\<lambda>f. \<not> usable f) fs))"
  by (induction fs arbitrary: es err) (simp_all add: usable_def rule_entry_def Let_def)

lemma discover_skills_loop_eq:
  "discover_skills_loop root fs (bc, err) =
     (foldl add_skill bc (filter usable fs),
      err @ map (warning root) (filter (\<lambda>f. \<not> usable f) fs))"
  by (induction fs arbitrary: bc err) (simp_all add: usable_def skill_entry_def add_skill_def Let_def)

lemma discover_agents_loop_eq:
  "discover_agents_loop root fs es =
     es @ map agent_entry (filter (\<lambda>f. \<not> agent_excluded root f \<and> usable f) fs)"
  by (induction fs arbitrary: es)
    (simp_all add: usable_def agent_entry_def agent_excluded_def Let_def)

lemma discover_custom_skills_loop_eq:
  "discover_custom_skills_loop fs es = es @ map skill_entry (filter usable fs)"
  by (induction fs arbitrary: es) (simp_all add: usable_def skill_entry_def Let_def)

lemma discover_custom_agents_loop_eq:
  "discover_custom_agents_loop fs es =
     es @ map skill_entry (filter (\<lambda>f. last (fst f) \<noteq> ''README.md'' \<and> usable f) fs)"
  by (induction fs arbitrary: es) (simp_all add: usable_def skill_entry_def Let_def)

lemma path_exists_rglob_skill:
  "\<not> path_exists fs dir \<Longrightarrow> rglob_skill fs dir = []"
  by (auto simp: path_exists_def rglob_skill_def is_under_def list_ex_iff filter_empty_conv)

lemma path_exists_rglob_md:
  "\<not> path_exists fs dir \<Longrightarrow> rglob_md fs dir = []"
  by (auto simp: path_exists_def rglob_md_def is_under_def list_ex_iff filter_empty_conv)

lemma discover_rules_eq:
  "discover_rules root fs =
     (map rule_entry (filter usable (rule_files fs)),
      map (warning root) (filter (\<lambda>f. \<not> usable f) (rule_files fs)))"
  by (simp add: discover_rules_def discover_rules_loop_eq rule_files_def)

lemma discover_skills_eq:
  "discover_skills root fs =
     (foldl add_skill [] (filter usable (skill_files fs)),
      map (warning root) (filter (\<lambda>f. \<not> usable f) (skill_files fs)))"
  by (simp add: discover_skills_def discover_skills_loop_eq skill_files_def)

lemma discover_agents_eq:
  "discover_agents root fs =
     map agent_entry (filter (\<lambda>f. \<not> agent_excluded root f \<and> usable f) (agent_files fs))"
  by (simp add: discover_agents_def discover_agents_loop_eq agent_files_def)

lemma discover_custom_skills_eq:
  "discover_custom_skills fs = map skill_entry (filter usable (custom_skill_files fs))"
  by (cases "path_exists fs [''custom'', ''skills'']")
    (simp_all add: discover_custom_skills_def discover_custom_skills_loop_eq custom_skill_files_def
      path_exists_rglob_skill sorted_paths_def)

lemma discover_custom_agents_eq:
  "discover_custom_agents fs =
     map skill_entry (filter (\<lambda>f. last (fst f) \<noteq> ''README.md'' \<and> usable f) (custom_agent_files fs))"
  by (cases "path_exists fs [''custom'', ''agents'']")
    (simp_all add: discover_custom_agents_def discover_custom_agents_loop_eq custom_agent_files_def
      path_exists_rglob_md sorted_paths_def)

lemma sort_key_unique:
  fixes f :: "'a \<Rightarrow> 'k::linorder"
  assumes "set xs = set ys" and "distinct (map f xs)" and "distinct (map f ys)"
  shows "sort_key f xs = sort_key f ys"
proof -
  let ?xs = "sort_key f xs" and ?ys = "sort_key f ys"
  from assms(2,3) have inj: "inj_on f (set xs)" "inj_on f (set ys)" and d: "distinct xs" "distinct ys"
    by (simp_all add: distinct_map)
  have dx: "distinct (map f ?xs)" and dy: "distinct (map f ?ys)"
    using inj d by (simp_all add: distinct_map)
  have "set (map f ?xs) = set (map f ?ys)"
    using assms(1) by simp
  with dx dy have "map f ?xs = map f ?ys"
    by (intro sorted_distinct_set_unique) simp_all
  moreover have "inj_on f (set ?xs \<union> set ?ys)"
    using inj assms(1) by simp
  ultimately show ?thesis
    by (rule map_inj_on)
qed

lemma sorted_paths_filter_unique:
  assumes "set fs' = set fs" and "distinct (map fst fs)" and "distinct (map fst fs')"
  shows "sorted_paths (filter P fs') = sorted_paths (filter P fs)"
  unfolding sorted_paths_def
  using assms by (intro sort_key_unique) (simp_all add: distinct_map_filter)

lemma path_exists_set: "set fs' = set fs \<Longrightarrow> path_exists fs' p = path_exists fs p"
  by (simp add: path_exists_def list_ex_iff)


lemma total_skills_update:
  "map_of bc c = Some es \<Longrightarrow>
   total_skills (AList.update c v bc) + length es = total_skills bc + length v"
  by (induction bc) (auto simp: total_skills_def)

lemma total_skills_setdefault_append:
  "total_skills (setdefault_append c e bc) = Suc (total_skills bc)"
proof (cases "map_of bc c")
  case None
  then show ?thesis
    by (simp add: setdefault_append_def total_skills_def)
next
  case (Some es)
  then show ?thesis
    using total_skills_update [of bc c es "es @ [e]"] by (simp add: setdefault_append_def)
qed

lemma total_skills_foldl_add_skill:
  "total_skills (foldl add_skill bc fs) = total_skills bc + length fs"
  by (induction fs arbitrary: bc) (simp_all add: add_skill_def total_skills_setdefault_append)

section \<open>Facts about the renderer and the entry point\<close>

lemma map_of_listed:
  "k \<in> set SKILL_CATEGORY_ORDER \<Longrightarrow> map_of (listed_skills bc) k = map_of bc k"
  unfolding listed_skills_def by (induction bc) auto

lemma skill_category_lines_listed:
  "k \<in> set SKILL_CATEGORY_ORDER \<Longrightarrow>
   skill_category_lines (listed_skills bc) k = skill_category_lines bc k"
  by (simp add: skill_category_lines_def map_of_listed)

lemma total_skills_split:
  "total_skills bc = total_skills (listed_skills bc) + total_skills (unlisted_skills bc)"
  unfolding total_skills_def listed_skills_def unlisted_skills_def
  by (induction bc) auto

lemma not_heading_row2: "\<not> section_heading (row2 e)"
  by (simp add: section_heading_def startswith_def row2_def)

lemma not_heading_row3: "\<not> section_heading (row3 e)"
  by (simp add: section_heading_def startswith_def row3_def)

lemma filter_rows2: "filter section_heading (map row2 es) = []"
  by (simp add: filter_empty_conv not_heading_row2)

lemma filter_rows3: "filter section_heading (map row3 es) = []"
  by (simp add: filter_empty_conv not_heading_row3)

lemma headings_header: "filter section_heading header_lines = []"
  by (simp add: header_lines_def section_heading_def startswith_def em_dash_def)

lemma headings_skill_category:
  "filter section_heading (skill_category_lines bc k) =
     (case map_of bc k of
        None \<Rightarrow> []
      | Some es \<Rightarrow>
          if es = [] then []
          else [with_count (''### '' @ (case map_of SKILL_CATEGORY_DISPLAY k of
                                         None \<Rightarrow> title k | Some d \<Rightarrow> d)) (length es)])"
  by (simp add: skill_category_lines_def Let_def filter_rows2 with_count_def section_heading_def startswith_def
      split: option.splits)

lemma headings_skills:
  "filter section_heading (skills_lines bc) =
     with_count ''## Skills'' (total_skills bc) # skill_subsection_headings bc"
proof -
  have "filter section_heading (concat (map (skill_category_lines bc) SKILL_CATEGORY_ORDER))
        = skill_subsection_headings bc"
    unfolding skill_subsection_headings_def filter_concat map_map comp_def
    by (simp only: headings_skill_category)
  then show ?thesis
    by (simp add: skills_lines_def with_count_def section_heading_def startswith_def)
qed

lemma headings_agents:
  "filter section_heading (agents_lines agents) = [with_count ''## Agents'' (length agents)]"
  by (simp add: agents_lines_def filter_rows3 with_count_def section_heading_def startswith_def)

lemma headings_rules:
  "filter section_heading (rules_lines rules) = [with_count ''## Rules'' (length rules)]"
  by (simp add: rules_lines_def filter_rows2 with_count_def section_heading_def startswith_def)

lemma headings_custom_table:
  "filter section_heading (custom_table h es) =
     (if es = [] then [] else [with_count (''### '' @ h) (length es)])"
  by (simp add: custom_table_def filter_rows2 with_count_def section_heading_def startswith_def)

lemma headings_custom:
  "filter section_heading (custom_lines cs ca) =
     ''## Custom''
     # (if cs = [] then [] else [with_count ''### Custom Skills'' (length cs)])
     @ (if ca = [] then [] else [with_count ''### Custom Agents'' (length ca)])"
  by (simp add: custom_lines_def headings_custom_table section_heading_def startswith_def)

lemma universal_newlines_plain:
  "CHR 0x0D \<notin> set xs \<Longrightarrow> universal_newlines (xs @ ys) = xs @ universal_newlines ys"
proof (induction xs)
  case Nil
  then show ?case by simp
next
  case (Cons x xs)
  then show ?case
    by (cases "xs @ ys") auto
qed

lemma set_join: "set (join sep ls) \<subseteq> set sep \<union> \<Union> (set ` set ls)"
  by (induction sep ls rule: join.induct) auto

lemma join_snoc: "ls \<noteq> [] \<Longrightarrow> join sep (ls @ [x]) = join sep ls @ sep @ x"
  by (induction sep ls rule: join.induct) auto

lemma render_catalog_no_sources:
  "render_catalog root [(output_path, raw)] = (empty_catalog, [])"
  by (simp add: render_catalog_def empty_catalog_def discover_rules_def discover_skills_def
      discover_agents_def discover_custom_skills_def discover_custom_agents_def fs_eval output_path_def)

lemma str_nat_digit: "n < 10 \<Longrightarrow> str_nat n = [digit_char n]"
  by (simp add: str_nat.simps)

lemmas catalog_eval =
  catalog_lines_def header_lines_def rules_lines_def skills_lines_def agents_lines_def
  custom_lines_def custom_table_def skill_category_lines_def SKILL_CATEGORY_ORDER_def
  SKILL_CATEGORY_DISPLAY_def total_skills_def row2_def row3_def em_dash_def str_nat_digit
  digit_char_def

lemma empty_catalog_shape:
  "\<exists>body. empty_catalog = body @ [CHR 0x0A] \<and> CHR 0x0D \<notin> set body"
proof -
  define cl where "cl = catalog_lines [] [] [] [] []"
  have last: "last cl = []" and ne: "butlast cl \<noteq> []"
    by (simp_all add: cl_def catalog_lines_def custom_lines_def header_lines_def)
  then have "cl = butlast cl @ [[]]"
    by (metis append_butlast_last_id butlast.simps(1))
  then have "empty_catalog = join [CHR 0x0A] (butlast cl @ [[]])"
    by (simp add: empty_catalog_def cl_def)
  also have "\<dots> = join [CHR 0x0A] (butlast cl) @ [CHR 0x0A]"
    using ne by (simp add: join_snoc)
  finally have shape: "empty_catalog = join [CHR 0x0A] (butlast cl) @ [CHR 0x0A]" .
  have "\<forall>l\<in>set cl. CHR 0x0D \<notin> set l"
    by (simp add: cl_def catalog_eval)
  then have "\<forall>l\<in>set (butlast cl). CHR 0x0D \<notin> set l"
    by (meson in_set_butlastD)
  then have "CHR 0x0D \<notin> set (join [CHR 0x0A] (butlast cl))"
    using set_join [of "[CHR 0x0A]" "butlast cl"] by auto
  with shape show ?thesis
    by blast
qed

lemma render_catalog_empty: "render_catalog root [] = (empty_catalog, [])"
  by (simp add: render_catalog_def empty_catalog_def discover_rules_def discover_skills_def
      discover_agents_def discover_custom_skills_def discover_custom_agents_def fs_eval)

lemma read_text_empty_catalog: "read_text empty_catalog = empty_catalog"
proof -
  obtain body where shape: "empty_catalog = body @ [CHR 0x0A]" and cr: "CHR 0x0D \<notin> set body"
    using empty_catalog_shape by blast
  show ?thesis
    using cr by (simp add: shape read_text_def universal_newlines_plain)
qed

lemma hd_empty_catalog: "hd empty_catalog = CHR ''<''"
  by (simp add: empty_catalog_def catalog_lines_def header_lines_def)

section \<open>The claims\<close>

subsection \<open>C1: a trigger phrase in the middle of a line\<close>

text \<open>
  C1 says that the normalizer turns the single line \<^verbatim>\<open>Does X and Y. Use when Z happens.\<close>
  into \<^verbatim>\<open>Does X and Y.\<close>. It does not: \<^verbatim>\<open>STOP_PATTERNS\<close> starts with \<^verbatim>\<open>^\s*\<close>, so a trigger
  phrase is found only where a line starts, and this text has one line, which starts with
  \<^verbatim>\<open>Does\<close>. The text comes back as it went in.
\<close>

theorem single_line_trigger_is_kept:
  "extract_catalog_description ''Does X and Y. Use when Z happens.'' \<noteq> ''Does X and Y.''"
  by (simp add: normalizer_eval re_eval chars_eval text_eval)

text \<open>
  C1 as amended: the single-line text is returned unchanged; when the trigger clause starts
  a line of its own, the normalizer returns \<^verbatim>\<open>Does X and Y.\<close>
\<close>

theorem trigger_clause_needs_its_own_line:
  "extract_catalog_description ''Does X and Y. Use when Z happens.''
     = ''Does X and Y. Use when Z happens.''
   \<and> extract_catalog_description (''Does X and Y.'' @ [CHR 0x0A] @ ''Use when Z happens.'')
     = ''Does X and Y.''"
  by (simp add: normalizer_eval re_eval chars_eval text_eval)

subsection \<open>C2: files without usable metadata\<close>

text \<open>
  C2 says that each of the scanners, for a matched file whose metadata block is absent or
  has no name, adds no entry and prints exactly one warning. The rule and the skill
  scanner do; the agent scanner and the two custom scanners skip such a file with a bare
  \<^verbatim>\<open>continue\<close> and print nothing. Here the agent scanner matches a file without a metadata
  block, and the run prints no warning at all.
\<close>

theorem agent_without_metadata_gives_no_warning:
  "rglob_md [([''agents'', ''notes.md''], ''No metadata here.'')] [''agents'']
     = [([''agents'', ''notes.md''], ''No metadata here.'')]
   \<and> parse_frontmatter ([''agents'', ''notes.md''], ''No metadata here.'') = None
   \<and> discover_agents [''repo''] [([''agents'', ''notes.md''], ''No metadata here.'')] = []
   \<and> snd (render_catalog [''repo''] [([''agents'', ''notes.md''], ''No metadata here.'')]) = []"
  by (simp add: fs_eval text_eval frontmatter_eval re_eval chars_eval render_catalog_def
      discover_agents_def discover_rules_def discover_skills_def discover_custom_agents_def
      discover_custom_skills_def)

text \<open>
  C2 as amended: in every scanner the entries come from the matched files that have a
  metadata block with a name (\<^const>\<open>usable\<close>), one entry for each, in the sorted order, so
  a file without one adds nothing and the files after it are still read. The rule scanner
  and the skill scanner print one warning for each matched file without one.
\<close>

theorem skipped_files_give_no_entry:
  "fst (discover_rules root fs) = map rule_entry (filter usable (rule_files fs))
   \<and> snd (discover_rules root fs) = map (warning root) (filter (\<lambda>f. \<not> usable f) (rule_files fs))
   \<and> fst (discover_skills root fs) = foldl add_skill [] (filter usable (skill_files fs))
   \<and> total_skills (fst (discover_skills root fs)) = length (filter usable (skill_files fs))
   \<and> snd (discover_skills root fs) = map (warning root) (filter (\<lambda>f. \<not> usable f) (skill_files fs))
   \<and> discover_agents root fs
       = map agent_entry (filter (\<lambda>f. \<not> agent_excluded root f \<and> usable f) (agent_files fs))
   \<and> discover_custom_skills fs = map skill_entry (filter usable (custom_skill_files fs))
   \<and> discover_custom_agents fs
       = map skill_entry (filter (\<lambda>f. last (fst f) \<noteq> ''README.md'' \<and> usable f) (custom_agent_files fs))"
proof -
  have "total_skills [] = 0"
    by (simp add: total_skills_def)
  then show ?thesis
    by (simp add: discover_rules_eq discover_skills_eq discover_agents_eq discover_custom_skills_eq
        discover_custom_agents_eq total_skills_foldl_add_skill)
qed

text \<open>
  An instance: of two rule files the one without a metadata block gives the warning, the
  other gives the entry.
\<close>

theorem rule_without_metadata_example:
  "discover_rules [''repo'']
     [([''rules'', ''style.md''],
       ''---'' @ [CHR 0x0A] @ ''name: style'' @ [CHR 0x0A] @ ''description: Keep it short''
       @ [CHR 0x0A] @ ''---'' @ [CHR 0x0A] @ ''# Style'' @ [CHR 0x0A]),
      ([''rules'', ''notes.md''], ''# Notes'' @ [CHR 0x0A])]
   = ([\<lparr>name = ''style'', description = ''Keep it short.'', path = ''../rules/style.md'',
        category = None\<rparr>],
      [''WARNING: /repo/rules/notes.md has no frontmatter, skipping''])"
proof -
  define style where "style = ([''rules'', ''style.md''],
       ''---'' @ [CHR 0x0A] @ ''name: style'' @ [CHR 0x0A] @ ''description: Keep it short''
       @ [CHR 0x0A] @ ''---'' @ [CHR 0x0A] @ ''# Style'' @ [CHR 0x0A])"
  define plain where "plain = ([''rules'', ''notes.md''], ''# Notes'' @ [CHR 0x0A])"
  have fl: "rule_files [style, plain] = [plain, style]"
    by (simp add: style_def plain_def rule_files_def fs_eval text_eval less_eq_char_def less_char_def)
  have n: "\<not> usable plain"
    by (simp add: plain_def usable_def frontmatter_eval re_eval chars_eval)
  have s: "usable style" "rule_entry style
      = \<lparr>name = ''style'', description = ''Keep it short.'', path = ''../rules/style.md'',
         category = None\<rparr>"
    by (simp_all add: style_def usable_def rule_entry_def frontmatter_eval re_eval chars_eval
        text_eval yaml_eval key_eval normalizer_eval entry_eval)
  have w: "warning [''repo''] plain = ''WARNING: /repo/rules/notes.md has no frontmatter, skipping''"
    by (simp add: plain_def warning_def abs_str_def)
  have "discover_rules [''repo''] [style, plain]
        = (fst (discover_rules [''repo''] [style, plain]), snd (discover_rules [''repo''] [style, plain]))"
    by simp
  also have "\<dots> = ([rule_entry style], [warning [''repo''] plain])"
    using skipped_files_give_no_entry [of "[''repo'']" "[style, plain]"]
    by (simp add: fl n s)
  finally show ?thesis
    by (simp add: s w) (simp add: style_def plain_def)
qed

subsection \<open>C3: the agent scanner\<close>




subsection \<open>C6: unescaping a quoted value\<close>



subsection \<open>C7: multi-line values\<close>


subsection \<open>C8: where the normalizer truncates\<close>



subsection \<open>C4: counts in the headings\<close>

text \<open>
  C4 says that every heading of a section or subsection shows the count of its entries.
  The heading of the last section, \<^verbatim>\<open>## Custom\<close>, is written without one.
\<close>

theorem custom_heading_has_no_count:
  "''## Custom'' \<in> set (catalog_lines [] [] [] [] [])
   \<and> section_heading ''## Custom''
   \<and> \<not> shows_count ''## Custom''"
  by (simp add: catalog_lines_def custom_lines_def section_heading_def startswith_def shows_count_def)

text \<open>
  C4 as amended: the headings of the document, in order, are those of the rules (with the
  number of rules), of the skills (with the number of all skill entries), of every
  category of the display order that has entries (with the number of its entries), of the
  agents (with their number), the heading \<^verbatim>\<open>## Custom\<close> without a count, and those of the
  custom skills and custom agents (with their numbers) when there are any.
\<close>

theorem headings_of_the_catalog:
  "filter section_heading (catalog_lines rules bc agents custom_skills custom_agents) =
     [with_count ''## Rules'' (length rules), with_count ''## Skills'' (total_skills bc)]
     @ skill_subsection_headings bc
     @ [with_count ''## Agents'' (length agents), ''## Custom'']
     @ (if custom_skills = [] then [] else [with_count ''### Custom Skills'' (length custom_skills)])
     @ (if custom_agents = [] then [] else [with_count ''### Custom Agents'' (length custom_agents)])"
  by (simp add: catalog_lines_def headings_header headings_rules headings_skills headings_agents
      headings_custom)

subsection \<open>C5: check mode\<close>

text \<open>
  C5 says that check mode exits with 0 exactly when the target file is byte for byte the
  fresh catalog. The script compares the text that \<^verbatim>\<open>read_text\<close> returns, and Python reads
  a carriage return followed by a line feed as one line feed. A target file that is the
  catalog of an empty repository with its last line ending written as CR LF differs from
  the fresh catalog and still passes the check.
\<close>

theorem crlf_target_passes_the_check:
  "exit_code (main [''repo''] [''generate-catalog.py'', ''--check'']
                [(output_path, butlast empty_catalog @ [CHR 0x0D, CHR 0x0A])]) = 0
   \<and> fst (render_catalog [''repo''] [(output_path, butlast empty_catalog @ [CHR 0x0D, CHR 0x0A])])
       = empty_catalog
   \<and> butlast empty_catalog @ [CHR 0x0D, CHR 0x0A] \<noteq> empty_catalog"
proof -
  obtain body where shape: "empty_catalog = body @ [CHR 0x0A]" and cr: "CHR 0x0D \<notin> set body"
    using empty_catalog_shape by blast
  have "read_text (body @ [CHR 0x0D, CHR 0x0A]) = body @ [CHR 0x0A]"
    using cr by (simp add: read_text_def universal_newlines_plain)
  then show ?thesis
    by (simp add: main_def render_catalog_no_sources shape)
qed

text \<open>
  C5 as amended: in check mode the exit code is 0 when the target file exists and its
  text as read (a carriage return with or without a line feed after it read as a line
  feed) equals the fresh catalog, and 1 otherwise; after the warnings of the scanners the
  error stream gets one error line when the file is absent and another when its text
  differs; the files are left as they are.
\<close>

theorem check_mode_outcome:
  assumes "''--check'' \<in> set argv"
  shows "exit_code (main root argv fs)
           = (if map_option read_text (map_of fs output_path) = Some (fst (render_catalog root fs))
              then 0 else 1)
       \<and> stderr (main root argv fs)
           = snd (render_catalog root fs)
             @ (if map_of fs output_path = None then [''ERROR: docs/CATALOG.md does not exist.'']
                else if map_option read_text (map_of fs output_path) = Some (fst (render_catalog root fs))
                then [] else [out_of_date])
       \<and> files (main root argv fs) = fs"
  using assms
  by (cases "render_catalog root fs"; cases "map_of fs output_path") (simp_all add: main_def)

text \<open>
  Three runs in check mode: without a target file, with the fresh catalog as the target
  file, and with a stale one.
\<close>

theorem check_mode_examples:
  "''--check'' \<in> set [''generate-catalog.py'', ''--check'']
   \<and> exit_code (main [''repo''] [''generate-catalog.py'', ''--check''] []) = 1
   \<and> stderr (main [''repo''] [''generate-catalog.py'', ''--check''] [])
       = [''ERROR: docs/CATALOG.md does not exist.'']
   \<and> exit_code (main [''repo''] [''generate-catalog.py'', ''--check''] [(output_path, empty_catalog)]) = 0
   \<and> exit_code (main [''repo''] [''generate-catalog.py'', ''--check''] [(output_path, ''stale'')]) = 1
   \<and> stderr (main [''repo''] [''generate-catalog.py'', ''--check''] [(output_path, ''stale'')])
       = [out_of_date]
   \<and> files (main [''repo''] [''generate-catalog.py'', ''--check''] [(output_path, ''stale'')])
       = [(output_path, ''stale'')]"
proof -
  have "hd (read_text ''stale'') = CHR ''s''"
    by (simp add: read_text_def)
  with hd_empty_catalog have "read_text ''stale'' \<noteq> empty_catalog"
    by auto
  then show ?thesis
    using check_mode_outcome [of "[''generate-catalog.py'', ''--check'']" "[''repo'']" "[]"]
      check_mode_outcome [of "[''generate-catalog.py'', ''--check'']" "[''repo'']"
        "[(output_path, empty_catalog)]"]
      check_mode_outcome [of "[''generate-catalog.py'', ''--check'']" "[''repo'']"
        "[(output_path, ''stale'')]"]
    by (simp add: render_catalog_empty render_catalog_no_sources read_text_empty_catalog)
qed

subsection \<open>C9: determinism\<close>

text \<open>
  C9: the catalog and the warnings depend on the tree only, not on the order in which the
  operating system enumerates it: two listings of the same files (the same paths with the
  same contents, every path once) give the same result.
\<close>

theorem catalog_independent_of_enumeration_order:
  assumes "set fs' = set fs" and "distinct (map fst fs)" and "distinct (map fst fs')"
  shows "render_catalog root fs' = render_catalog root fs"
proof -
  note same = sorted_paths_filter_unique [OF assms]
  have "discover_rules root fs' = discover_rules root fs"
    by (simp add: discover_rules_def glob_md_def same)
  moreover have "discover_skills root fs' = discover_skills root fs"
    by (simp add: discover_skills_def rglob_skill_def same)
  moreover have "discover_agents root fs' = discover_agents root fs"
    by (simp add: discover_agents_def rglob_md_def same)
  moreover have "discover_custom_skills fs' = discover_custom_skills fs"
    by (simp add: discover_custom_skills_def rglob_skill_def same path_exists_set [OF assms(1)])
  moreover have "discover_custom_agents fs' = discover_custom_agents fs"
    by (simp add: discover_custom_agents_def rglob_md_def same path_exists_set [OF assms(1)])
  ultimately show ?thesis
    by (simp add: render_catalog_def)
qed

theorem two_enumeration_orders:
  "render_catalog [''repo'']
     [([''rules'', ''b.md''], ''---'' @ [CHR 0x0A] @ ''name: b'' @ [CHR 0x0A] @ ''---'' @ [CHR 0x0A]),
      ([''rules'', ''a.md''], ''---'' @ [CHR 0x0A] @ ''name: a'' @ [CHR 0x0A] @ ''---'' @ [CHR 0x0A])]
   = render_catalog [''repo'']
     [([''rules'', ''a.md''], ''---'' @ [CHR 0x0A] @ ''name: a'' @ [CHR 0x0A] @ ''---'' @ [CHR 0x0A]),
      ([''rules'', ''b.md''], ''---'' @ [CHR 0x0A] @ ''name: b'' @ [CHR 0x0A] @ ''---'' @ [CHR 0x0A])]"
  by (rule catalog_independent_of_enumeration_order) auto

subsection \<open>C10: skills outside the display order\<close>

text \<open>
  C10: the lines of the catalog are those of the catalog built from the categories of the
  display order alone, except that the number in the heading of the skills section also
  counts the entries of the other categories. So an entry of a category outside the
  display order is counted in that heading and written nowhere.
\<close>

theorem unlisted_skills_counted_but_not_shown:
  "catalog_lines rules bc agents custom_skills custom_agents =
     header_lines @ rules_lines rules
     @ with_count ''## Skills'' (total_skills (listed_skills bc) + total_skills (unlisted_skills bc))
       # tl (skills_lines (listed_skills bc))
     @ agents_lines agents @ custom_lines custom_skills custom_agents"
proof -
  define sections where
    "sections c = concat (map (skill_category_lines c) SKILL_CATEGORY_ORDER)" for c
  have "map (skill_category_lines (listed_skills bc)) SKILL_CATEGORY_ORDER
        = map (skill_category_lines bc) SKILL_CATEGORY_ORDER"
    by (rule map_cong) (simp_all add: skill_category_lines_listed)
  then have same: "sections (listed_skills bc) = sections bc"
    unfolding sections_def by (rule arg_cong)
  have shape: "skills_lines c = with_count ''## Skills'' (total_skills c)
         # [[], ''*Load on demand '' @ em_dash @ '' teach Claude specialized workflows.*'', []]
           @ sections c @ [''---'', []]" for c
    by (simp add: skills_lines_def with_count_def sections_def)
  have "skills_lines bc
        = with_count ''## Skills'' (total_skills bc) # tl (skills_lines (listed_skills bc))"
    by (simp add: shape same)
  then show ?thesis
    by (simp add: catalog_lines_def total_skills_split [symmetric])
qed

text \<open>
  An instance: a skill under \<^verbatim>\<open>skills/misc\<close> is discovered with the category \<^verbatim>\<open>misc\<close>; the
  skills section then has the heading with the count 1 and no subsection.
\<close>

theorem unlisted_skill_example:
  "fst (discover_skills [''repo'']
          [([''skills'', ''misc'', ''lint'', ''SKILL.md''],
            ''---'' @ [CHR 0x0A] @ ''name: lint'' @ [CHR 0x0A] @ ''---'' @ [CHR 0x0A])])
     = [(''misc'', [\<lparr>name = ''lint'', description = [],
                      path = ''../skills/misc/lint/SKILL.md'', category = None\<rparr>])]
   \<and> catalog_lines [] [(''misc'', [\<lparr>name = ''lint'', description = [],
                      path = ''../skills/misc/lint/SKILL.md'', category = None\<rparr>])] [] [] []
     = header_lines @ rules_lines []
       @ [''## Skills (1)'', [],
          ''*Load on demand '' @ em_dash @ '' teach Claude specialized workflows.*'', [],
          ''---'', []]
       @ agents_lines [] @ custom_lines [] []"
proof -
  have "fst (discover_skills [''repo'']
          [([''skills'', ''misc'', ''lint'', ''SKILL.md''],
            ''---'' @ [CHR 0x0A] @ ''name: lint'' @ [CHR 0x0A] @ ''---'' @ [CHR 0x0A])])
     = [(''misc'', [\<lparr>name = ''lint'', description = [],
                      path = ''../skills/misc/lint/SKILL.md'', category = None\<rparr>])]"
    by (simp add: discover_skills_def fs_eval text_eval frontmatter_eval re_eval chars_eval
        yaml_eval key_eval normalizer_eval entry_eval skill_category_def setdefault_append_def)
  then show ?thesis
    using unlisted_skills_counted_but_not_shown
      [of "[]" "[(''misc'', [\<lparr>name = ''lint'', description = [],
                      path = ''../skills/misc/lint/SKILL.md'', category = None\<rparr>])]" "[]" "[]" "[]"]
    by (simp add: listed_skills_def unlisted_skills_def SKILL_CATEGORY_ORDER_def total_skills_def
        with_count_def str_nat_digit digit_char_def skills_lines_def skill_category_lines_def)
qed

end
